theory Spec2Isabelle
  imports
    Complex_Main
    "HOL-Library.Char_ord"
    "HOL-Library.List_Lexorder"
    "HOL-Library.Product_Lexorder"
    "HOL-Library.Multiset"
begin

section \<open>The crop production dashboard (agri.py)\<close>

text \<open>
  The program is one script: \<open>load_data\<close> (lines 11 to 54) produces the data set, and the
  rest of the script (lines 55 to 146) reads three filter values, narrows the data set,
  aggregates it and hands the results to the chart library.

  Conventions of the embedding.
  \<^item> A Python \<open>str\<close> is a \<open>string\<close>; a \<open>char\<close> is read as the code point of that number,
    so only code points below 256 are covered. The order on strings is the lexicographic
    order of the code points, as Python compares \<open>str\<close> values.
  \<^item> Python's \<open>int\<close> is \<open>int\<close>. A Python \<open>float\<close> is a \<open>real\<close>, and arithmetic on it is
    exact, with one exception: the two column totals of lines 76 and 77 are also given in
    float64 (\<open>total_production_f64\<close>, \<open>total_area_f64\<close>), where every addition is rounded
    by \<open>fl\<close>.
  \<^item> An exception is a value of \<open>py_error\<close>; a function that may raise returns
    \<open>py_error + 'a\<close>.
  \<^item> What the script does not own is an input: the outcome of \<open>pd.read_csv\<close>, the values
    the random number generator hands out, and the user's choices in the three widgets.
\<close>

subsection \<open>Exceptions\<close>

datatype py_error =
    FileNotFoundError
  | PermissionError
  | IsADirectoryError
  | EmptyDataError
  | ParserError
  | UnicodeDecodeError
  | KeyError string
  | ZeroDivisionError
  | ValueError

subsection \<open>Tables\<close>

text \<open>
  A table as \<open>load_data\<close> handles it: the column labels and the rows, each row a list of
  cells (line 46 appends such a list, lines 48 to 52 attach the labels).
\<close>

datatype cell = CStr string | CInt int | CFloat real

record table =
  columns :: "string list"
  rows :: "cell list list"

text \<open>
  A crop production record: one row read through the six named columns that the script
  addresses (\<open>df['Crop_Year']\<close>, \<open>df['State_Name']\<close>, \<open>df['Crop']\<close>, \<open>['Production']\<close>,
  \<open>['Area']\<close>; \<open>Season\<close> is only displayed).
\<close>

record crop_record =
  State_Name :: string
  Crop_Year :: int
  Season :: string
  Crop :: string
  Area :: real
  Production :: real

subsection \<open>Column names: \<open>str.strip\<close> and \<open>str.replace\<close> (line 15)\<close>

text \<open>
  \<open>str.strip()\<close> without argument removes the characters for which \<open>str.isspace\<close> holds.
  Below 256 these are the code points 9 to 13, 28 to 32, 133 and 160.
\<close>

definition isspace :: "char \<Rightarrow> bool" where
  "isspace c = (let n = (of_char c :: nat) in
     (9 \<le> n \<and> n \<le> 13) \<or> (28 \<le> n \<and> n \<le> 32) \<or> n = 133 \<or> n = 160)"

definition lstrip :: "string \<Rightarrow> string" where
  "lstrip s = dropWhile isspace s"

definition rstrip :: "string \<Rightarrow> string" where
  "rstrip s = rev (dropWhile isspace (rev s))"

definition strip :: "string \<Rightarrow> string" where
  "strip s = rstrip (lstrip s)"

text \<open>\<open>s.replace(old, new)\<close> for one-character \<open>old\<close> and \<open>new\<close>, the only use in the script.\<close>

definition replace :: "char \<Rightarrow> char \<Rightarrow> string \<Rightarrow> string" where
  "replace old new s = map (\<lambda>c. if c = old then new else c) s"

text \<open>\<open>df.columns.str.strip().str.replace(" ", "_")\<close>, for one label.\<close>

definition normalize_column :: "string \<Rightarrow> string" where
  "normalize_column s = replace (CHR '' '') (CHR ''_'') (strip s)"

text \<open>
  \<open>df[name]\<close>: the cells of the column labelled \<open>name\<close>, or \<open>KeyError\<close> when no column has
  the label. (Where several columns carry the label pandas returns them all; the embedding
  returns the first.)
\<close>

fun index_of :: "'a list \<Rightarrow> 'a \<Rightarrow> nat option" where
  "index_of [] a = None"
| "index_of (x # xs) a = (if x = a then Some 0 else map_option Suc (index_of xs a))"

definition getitem :: "table \<Rightarrow> string \<Rightarrow> py_error + cell option list" where
  "getitem df name =
     (case index_of (columns df) name of
        None \<Rightarrow> Inl (KeyError name)
      | Some i \<Rightarrow> Inr (map (\<lambda>r. if i < length r then Some (r ! i) else None) (rows df)))"

subsection \<open>The synthetic generator (lines 20 to 52)\<close>

definition states :: "string list" where
  "states = [''Karnataka'', ''Maharashtra'', ''Punjab'',
             ''Uttar Pradesh'', ''Tamil Nadu'', ''Bihar'']"

definition crops :: "string list" where
  "crops = [''Rice'', ''Maize'', ''Wheat'',
            ''Sugarcane'', ''Cotton'', ''Groundnut'']"

definition seasons :: "string list" where
  "seasons = [''Kharif'', ''Rabi'', ''Whole Year'']"

text \<open>\<open>list(range(2015, 2024))\<close>\<close>

definition years :: "int list" where
  "years = [2015 ..< 2024]"

text \<open>The dictionary of lines 35 to 42, in the order it is written.\<close>

definition yield_factor :: "string \<rightharpoonup> real" where
  "yield_factor = map_of
     [(''Rice'', 3),
      (''Wheat'', 3.5),
      (''Maize'', 4),
      (''Sugarcane'', 60),
      (''Cotton'', 0.5),
      (''Groundnut'', 1.5)]"

text \<open>
  The generator behind \<open>np.random\<close> is numpy's. The embedding takes what it hands out as a
  sequence of natural numbers, one for each call in the order of the calls, and each call
  reduces its number into the range that the arguments of the call give:
  \<open>choice(a)\<close> to an index below the length of \<open>a\<close>, \<open>randint(low, high)\<close> to an offset below
  \<open>high - low\<close>, \<open>uniform(low, high)\<close> to one of the \<open>2^53\<close> equally spaced fractions of the
  interval that a 53-bit sample gives. As in numpy, \<open>choice\<close> of an empty list and \<open>randint\<close> of
  an empty range raise \<open>ValueError\<close>.
\<close>

type_synonym rng = "nat \<Rightarrow> nat"

definition choice :: "'a list \<Rightarrow> nat \<Rightarrow> py_error + 'a" where
  "choice a raw = (if a = [] then Inl ValueError else Inr (a ! (raw mod length a)))"

definition randint :: "int \<Rightarrow> int \<Rightarrow> nat \<Rightarrow> py_error + int" where
  "randint low high raw =
     (if high \<le> low then Inl ValueError else Inr (low + int raw mod (high - low)))"

definition random_sample :: "nat \<Rightarrow> real" where
  "random_sample raw = of_nat (raw mod 2 ^ 53) / 2 ^ 53"

definition uniform :: "real \<Rightarrow> real \<Rightarrow> nat \<Rightarrow> real" where
  "uniform low high raw = low + (high - low) * random_sample raw"

text \<open>The generator after \<open>k\<close> calls.\<close>

definition advance :: "nat \<Rightarrow> rng \<Rightarrow> rng" where
  "advance k g = (\<lambda>i. g (k + i))"

text \<open>
  \<open>round(x, 2)\<close>: the nearest multiple of 0.01, a tie going to the even one.
\<close>

definition round_half_even :: "real \<Rightarrow> int" where
  "round_half_even y =
     (let f = \<lfloor>y\<rfloor>; d = y - of_int f in
      if d < 1/2 then f else if 1/2 < d then f + 1 else if even f then f else f + 1)"

definition round2 :: "real \<Rightarrow> real" where
  "round2 x = of_int (round_half_even (x * 100)) / 100"

text \<open>
  One pass of the loop body (lines 29 to 46) with the generator \<open>g\<close>: the six calls take
  \<open>g 0\<close> to \<open>g 5\<close>, in the order in which Python evaluates them, and the pass ends in the row
  it appends or in the exception that stops it.
\<close>

definition make_row :: "rng \<Rightarrow> py_error + cell list" where
  "make_row g =
     (case choice states (g 0) of Inl e \<Rightarrow> Inl e | Inr state \<Rightarrow>
     (case choice crops (g 1) of Inl e \<Rightarrow> Inl e | Inr crop \<Rightarrow>
     (case choice years (g 2) of Inl e \<Rightarrow> Inl e | Inr year \<Rightarrow>
     (case choice seasons (g 3) of Inl e \<Rightarrow> Inl e | Inr season \<Rightarrow>
     (case randint 100 10000 (g 4) of Inl e \<Rightarrow> Inl e | Inr area \<Rightarrow>
     (case yield_factor crop of
        None \<Rightarrow> Inl (KeyError crop)
      | Some yf \<Rightarrow>
          (let production = of_int area * yf * uniform 0.8 1.2 (g 5)
           in Inr [CStr state, CInt year, CStr season, CStr crop, CInt area,
                   CFloat (round2 production)])))))))"

text \<open>
  \<open>for _ in range(n)\<close>: the list \<open>data\<close> after \<open>n\<close> passes, or the exception that stopped it.
  Pass \<open>n\<close> finds the generator six calls further than pass \<open>n - 1\<close> did.
\<close>

primrec generate :: "rng \<Rightarrow> nat \<Rightarrow> py_error + cell list list" where
  "generate g 0 = Inr []"
| "generate g (Suc n) =
     (case generate g n of
        Inl e \<Rightarrow> Inl e
      | Inr data \<Rightarrow>
          (case make_row (advance (6 * n) g) of
             Inl e \<Rightarrow> Inl e
           | Inr row \<Rightarrow> Inr (data @ [row])))"

definition synthetic :: "rng \<Rightarrow> py_error + table" where
  "synthetic g =
     (case generate g 1000 of
        Inl e \<Rightarrow> Inl e
      | Inr data \<Rightarrow>
          Inr \<lparr>columns = [''State_Name'', ''Crop_Year'', ''Season'',
                           ''Crop'', ''Area'', ''Production''],
               rows = data\<rparr>)"

subsection \<open>\<open>load_data\<close> (lines 12 to 54)\<close>

text \<open>
  The world \<open>load_data\<close> runs in: what \<open>pd.read_csv("crop_production.csv")\<close> does (it
  raises, or returns the parsed table) and numpy's generator as the call finds it.
\<close>

record env =
  read_csv :: "py_error + table"
  random :: rng

text \<open>
  The message of line 18 after its leading warning sign, a code point beyond the strings
  of the embedding.
\<close>

definition warning_text :: string where
  "warning_text = ''CSV file not found. Using synthetic data.''"

text \<open>
  The result: the messages given to \<open>st.warning\<close>, and the returned table or the exception
  that leaves the function.
\<close>

definition load_data :: "env \<Rightarrow> string list \<times> (py_error + table)" where
  "load_data e =
     (case read_csv e of
        Inr df \<Rightarrow> ([], Inr (df\<lparr>columns := map normalize_column (columns df)\<rparr>))
      | Inl err \<Rightarrow>
          (if err = FileNotFoundError
           then ([warning_text], synthetic (random e))
           else ([], Inl err)))"

subsection \<open>\<open>@st.cache_data\<close> (line 11)\<close>

text \<open>
  The decorator belongs to Streamlit. Its documented behaviour for a function without
  parameters: the first call that returns stores the returned value together with the
  elements the call displayed; every later call returns a copy of the stored value and
  replays the stored elements, without running the function. A call that raises stores
  nothing. The store lives as long as the process; the script holds no reference into it.
\<close>

record app_state =
  cache :: "(string list \<times> table) option"

definition cached_load_data ::
    "app_state \<Rightarrow> env \<Rightarrow> app_state \<times> string list \<times> (py_error + table)" where
  "cached_load_data s e =
     (case cache s of
        Some (msgs, df) \<Rightarrow> (s, msgs, Inr df)
      | None \<Rightarrow>
          (case load_data e of
             (msgs, Inr df) \<Rightarrow> (s\<lparr>cache := Some (msgs, df)\<rparr>, msgs, Inr df)
           | (msgs, Inl err) \<Rightarrow> (s, msgs, Inl err)))"

text \<open>The state of a process that has just started.\<close>

definition fresh :: app_state where
  "fresh = \<lparr>cache = None\<rparr>"

text \<open>
  What successive calls of \<open>load_data()\<close> show and return, each call finding the world as it
  is at that moment.
\<close>

fun calls :: "app_state \<Rightarrow> env list \<Rightarrow> (string list \<times> (py_error + table)) list" where
  "calls s [] = []"
| "calls s (e # es) =
     (case cached_load_data s e of (s', msgs, r) \<Rightarrow> (msgs, r) # calls s' es)"

subsection \<open>The loaded table as records\<close>

text \<open>
  The script addresses the loaded table by column label. \<open>records_of\<close> reads every row
  through the six labels of the data model, each cell at the position of the first column
  of that label. The result is \<open>None\<close> when the table is not a table of crop records (a
  label is missing, a row is short, a cell is of another kind): the embedding does not
  follow the script on such a table.
\<close>

definition field :: "string list \<Rightarrow> cell list \<Rightarrow> string \<Rightarrow> cell option" where
  "field cols r name = map_of (zip cols r) name"

fun str_of :: "cell \<Rightarrow> string option" where
  "str_of (CStr s) = Some s"
| "str_of (CInt i) = None"
| "str_of (CFloat x) = None"

fun int_of :: "cell \<Rightarrow> int option" where
  "int_of (CInt i) = Some i"
| "int_of (CStr s) = None"
| "int_of (CFloat x) = None"

fun num_of :: "cell \<Rightarrow> real option" where
  "num_of (CInt i) = Some (of_int i)"
| "num_of (CFloat x) = Some x"
| "num_of (CStr s) = None"

definition row_record :: "string list \<Rightarrow> cell list \<Rightarrow> crop_record option" where
  "row_record cols r =
     Option.bind (Option.bind (field cols r ''State_Name'') str_of) (\<lambda>st.
     Option.bind (Option.bind (field cols r ''Crop_Year'') int_of) (\<lambda>yr.
     Option.bind (Option.bind (field cols r ''Season'') str_of) (\<lambda>se.
     Option.bind (Option.bind (field cols r ''Crop'') str_of) (\<lambda>cr.
     Option.bind (Option.bind (field cols r ''Area'') num_of) (\<lambda>ar.
     Option.bind (Option.bind (field cols r ''Production'') num_of) (\<lambda>pr.
       Some \<lparr>State_Name = st, Crop_Year = yr, Season = se, Crop = cr,
             Area = ar, Production = pr\<rparr>))))))"

definition records_of :: "table \<Rightarrow> crop_record list option" where
  "records_of df =
     (if list_all (\<lambda>name. name \<in> set (columns df))
           [''State_Name'', ''Crop_Year'', ''Season'', ''Crop'', ''Area'', ''Production'']
      then those (map (row_record (columns df)) (rows df))
      else None)"

subsection \<open>pandas operations the script uses\<close>

text \<open>
  A column is the list of its values, row by row; a boolean mask is a \<open>bool list\<close> of the
  same length.
\<close>

text \<open>\<open>col == v\<close>. The compared value is optional because an empty select box yields \<open>None\<close>,
  which equals no year.\<close>

definition series_eq :: "'a list \<Rightarrow> 'a option \<Rightarrow> bool list" where
  "series_eq col v = map (\<lambda>x. Some x = v) col"

text \<open>\<open>col.isin(vals)\<close>\<close>

definition isin :: "'a list \<Rightarrow> 'a list \<Rightarrow> bool list" where
  "isin col vals = map (\<lambda>x. x \<in> set vals) col"

text \<open>\<open>m1 & m2\<close>\<close>

definition mask_and :: "bool list \<Rightarrow> bool list \<Rightarrow> bool list" where
  "mask_and m1 m2 = map (\<lambda>(a, b). a \<and> b) (zip m1 m2)"

text \<open>\<open>df[mask]\<close>: the rows whose mask entry is true, in the order of \<open>df\<close>.\<close>

definition boolean_index :: "'r list \<Rightarrow> bool list \<Rightarrow> 'r list" where
  "boolean_index df m = map fst (filter snd (zip df m))"

text \<open>\<open>col.sum()\<close> in exact arithmetic: the running total from 0, row after row.\<close>

definition series_sum :: "real list \<Rightarrow> real" where
  "series_sum col = foldl (+) 0 col"










text \<open>\<open>col.unique()\<close>: the distinct values in the order of their first appearance.\<close>

fun unique :: "'a list \<Rightarrow> 'a list" where
  "unique [] = []"
| "unique (x # xs) = x # unique (filter (\<lambda>y. y \<noteq> x) xs)"

text \<open>
  \<open>df.groupby(key)[val].sum().reset_index()\<close>: one row per distinct key, the keys in
  ascending order (\<open>groupby\<close> sorts them), each with the sum of \<open>val\<close> over its group.
\<close>

definition groupby_sum :: "('r \<Rightarrow> 'k::linorder) \<Rightarrow> ('r \<Rightarrow> real) \<Rightarrow> 'r list \<Rightarrow> ('k \<times> real) list" where
  "groupby_sum key val df =
     map (\<lambda>k. (k, series_sum (map val (filter (\<lambda>r. key r = k) df))))
         (sort (unique (map key df)))"

subsection \<open>Streamlit widgets (lines 58 to 68)\<close>

text \<open>
  A widget returns the user's choice, or its default while the user has not touched it.
  The user's side is an input of the script.
\<close>

record ui =
  picked_year :: "int option"
  picked_states :: "string list option"
  picked_crops :: "string list option"

text \<open>
  \<open>st.selectbox(label, options, index=i)\<close>: the picked option, else \<open>options[i]\<close>; with no
  option at all the widget returns \<open>None\<close>.
\<close>

definition selectbox :: "'a list \<Rightarrow> int \<Rightarrow> 'a option \<Rightarrow> 'a option" where
  "selectbox options i picked =
     (case picked of
        Some v \<Rightarrow> Some v
      | None \<Rightarrow> if 0 \<le> i \<and> i < int (length options) then Some (options ! nat i) else None)"

text \<open>\<open>st.multiselect(label, options, default=d)\<close>\<close>

definition multiselect :: "'a list \<Rightarrow> 'a list \<Rightarrow> 'a list option \<Rightarrow> 'a list" where
  "multiselect options d picked = (case picked of Some vs \<Rightarrow> vs | None \<Rightarrow> d)"

subsection \<open>The script after \<open>load_data\<close> (lines 57 to 146)\<close>

definition all_years :: "crop_record list \<Rightarrow> int list" where
  "all_years df = sort (unique (map Crop_Year df))"

definition selected_year :: "crop_record list \<Rightarrow> ui \<Rightarrow> int option" where
  "selected_year df u =
     selectbox (all_years df) (int (length (all_years df)) - 1) (picked_year u)"

definition all_states :: "crop_record list \<Rightarrow> string list" where
  "all_states df = sort (unique (map State_Name df))"

definition selected_state :: "crop_record list \<Rightarrow> ui \<Rightarrow> string list" where
  "selected_state df u = multiselect (all_states df) (take 2 (all_states df)) (picked_states u)"

definition all_crops :: "crop_record list \<Rightarrow> string list" where
  "all_crops df = sort (unique (map Crop df))"

definition selected_crops :: "crop_record list \<Rightarrow> ui \<Rightarrow> string list" where
  "selected_crops df u = multiselect (all_crops df) (take 3 (all_crops df)) (picked_crops u)"

text \<open>Lines 69 to 73.\<close>

definition filtered_df ::
    "crop_record list \<Rightarrow> int option \<Rightarrow> string list \<Rightarrow> string list \<Rightarrow> crop_record list" where
  "filtered_df df year sel_state sel_crops =
     boolean_index df
       (mask_and
          (mask_and (series_eq (map Crop_Year df) year)
                    (isin (map State_Name df) sel_state))
          (isin (map Crop df) sel_crops))"

text \<open>Lines 76 to 78. The division raises on a zero divisor, as Python's does.\<close>

definition total_production :: "crop_record list \<Rightarrow> real" where
  "total_production fdf = series_sum (map Production fdf)"

definition total_area :: "crop_record list \<Rightarrow> real" where
  "total_area fdf = series_sum (map Area fdf)"



definition true_div :: "real \<Rightarrow> real \<Rightarrow> py_error + real" where
  "true_div a b = (if b = 0 then Inl ZeroDivisionError else Inr (a / b))"

definition avg_yield :: "crop_record list \<Rightarrow> py_error + real" where
  "avg_yield fdf =
     (if total_area fdf > 0 then true_div (total_production fdf) (total_area fdf) else Inr 0)"

text \<open>Lines 114 to 121.\<close>

definition history_df :: "crop_record list \<Rightarrow> string list \<Rightarrow> string list \<Rightarrow> crop_record list" where
  "history_df df sel_state sel_crops =
     boolean_index df
       (mask_and (isin (map State_Name df) sel_state) (isin (map Crop df) sel_crops))"

definition yearly_prod :: "crop_record list \<Rightarrow> ((int \<times> string) \<times> real) list" where
  "yearly_prod hdf = groupby_sum (\<lambda>r. (Crop_Year r, State_Name r)) Production hdf"

text \<open>
  What one run of the script puts on the page: the three metrics, and the data handed to
  the bar chart, the pie chart, the line chart, the scatter plot and the table.
\<close>

record page =
  metric_production :: real
  metric_area :: real
  metric_yield :: real
  bar_data :: "(string \<times> real) list"
  pie_data :: "crop_record list"
  line_data :: "((int \<times> string) \<times> real) list"
  scatter_data :: "crop_record list"
  table_data :: "crop_record list"

definition render :: "crop_record list \<Rightarrow> ui \<Rightarrow> py_error + page" where
  "render df u =
     (let year = selected_year df u;
          sel_state = selected_state df u;
          sel_crops = selected_crops df u;
          fdf = filtered_df df year sel_state sel_crops
      in case avg_yield fdf of
           Inl e \<Rightarrow> Inl e
         | Inr y \<Rightarrow>
             Inr \<lparr>metric_production = total_production fdf,
                  metric_area = total_area fdf,
                  metric_yield = y,
                  bar_data = groupby_sum Crop Production fdf,
                  pie_data = fdf,
                  line_data = yearly_prod (history_df df sel_state sel_crops),
                  scatter_data = fdf,
                  table_data = fdf\<rparr>)"

text \<open>
  The same statements with the objects they build. A table of records is an object; the
  names of the script hold references, here positions in the list of the objects of the run.
  \<open>df[mask]\<close> builds a new object and leaves \<open>df\<close> alone; the script has no statement that
  assigns into a table. A name always refers to an object, so a reference is read only
  below the length of the list. The grouped tables are built from these objects and handed
  to the charts.
\<close>

type_synonym heap = "crop_record list list"

definition alloc :: "crop_record list \<Rightarrow> heap \<Rightarrow> nat \<times> heap" where
  "alloc ob h = (length h, h @ [ob])"

record refs =
  ref_df :: nat
  ref_filtered_df :: nat
  ref_history_df :: nat

text \<open>
  Lines 57 to 146, \<open>df\<close> referring to the loaded table: the objects after the run, and the
  references and the page, or the exception that ended the run.
\<close>

definition script_body :: "heap \<Rightarrow> nat \<Rightarrow> ui \<Rightarrow> heap \<times> (py_error + refs \<times> page)" where
  "script_body h df u =
     (let year = selected_year (h ! df) u;
          sel_state = selected_state (h ! df) u;
          sel_crops = selected_crops (h ! df) u;
          (fdf, h1) = alloc (filtered_df (h ! df) year sel_state sel_crops) h
      in case avg_yield (h1 ! fdf) of
           Inl e \<Rightarrow> (h1, Inl e)
         | Inr y \<Rightarrow>
             (let (hdf, h2) = alloc (history_df (h1 ! df) sel_state sel_crops) h1
              in (h2, Inr (\<lparr>ref_df = df, ref_filtered_df = fdf, ref_history_df = hdf\<rparr>,
                           \<lparr>metric_production = total_production (h1 ! fdf),
                            metric_area = total_area (h1 ! fdf),
                            metric_yield = y,
                            bar_data = groupby_sum Crop Production (h1 ! fdf),
                            pie_data = h1 ! fdf,
                            line_data = yearly_prod (h2 ! hdf),
                            scatter_data = h2 ! fdf,
                            table_data = h2 ! fdf\<rparr>))))"

text \<open>
  One run of the whole script, top to bottom: the state of the process before and after,
  the warnings shown, and the page or the exception that ended the run. \<open>None\<close>: the
  loaded table is not a table of crop records. The table that \<open>load_data()\<close> returns is the
  first object of the run.
\<close>

definition run_script ::
    "app_state \<Rightarrow> env \<Rightarrow> ui \<Rightarrow> app_state \<times> string list \<times> (py_error + page) option" where
  "run_script s e u =
     (case cached_load_data s e of
        (s', msgs, Inl err) \<Rightarrow> (s', msgs, Some (Inl err))
      | (s', msgs, Inr df) \<Rightarrow>
          (s', msgs,
           map_option
             (\<lambda>rs. case alloc rs [] of (a, h) \<Rightarrow> map_sum id snd (snd (script_body h a u)))
             (records_of df)))"

text \<open>The interactions of a session, one run of the script per interaction.\<close>

fun session :: "app_state \<Rightarrow> (env \<times> ui) list \<Rightarrow> app_state" where
  "session s [] = s"
| "session s ((e, u) # rest) = session (fst (run_script s e u)) rest"

subsection \<open>Sample data\<close>

text \<open>
  The record of the specification's first scenario (its season is not given there), and
  two more records for the examples.
\<close>

definition scenario1 :: crop_record where
  "scenario1 = \<lparr>State_Name = ''Karnataka'', Crop_Year = 2020, Season = ''Kharif'',
                 Crop = ''Rice'', Area = 100, Production = 300\<rparr>"

definition sample2 :: crop_record where
  "sample2 = \<lparr>State_Name = ''Karnataka'', Crop_Year = 2021, Season = ''Rabi'',
               Crop = ''Rice'', Area = 50, Production = 120\<rparr>"

definition sample3 :: crop_record where
  "sample3 = \<lparr>State_Name = ''Bihar'', Crop_Year = 2020, Season = ''Rabi'',
               Crop = ''Wheat'', Area = 40, Production = 140\<rparr>"




text \<open>A generator, and three worlds for \<open>load_data\<close>.\<close>

definition sample_rng :: rng where
  "sample_rng k = (if k mod 6 = 5 then 2 ^ 52 else k)"

definition env_missing :: env where
  "env_missing = \<lparr>read_csv = Inl FileNotFoundError, random = sample_rng\<rparr>"

definition env_denied :: env where
  "env_denied = \<lparr>read_csv = Inl PermissionError, random = sample_rng\<rparr>"

definition sample_csv :: table where
  "sample_csv =
     \<lparr>columns = [''State Name'', '' Crop Year '', ''Season'', ''Crop '', ''Area'', ''Production''],
      rows = [[CStr ''Karnataka'', CInt 2020, CStr ''Kharif'', CStr ''Rice'', CInt 100, CInt 300]]\<rparr>"

definition env_file :: env where
  "env_file = \<lparr>read_csv = Inr sample_csv, random = sample_rng\<rparr>"

definition no_picks :: ui where
  "no_picks = \<lparr>picked_year = None, picked_states = None, picked_crops = None\<rparr>"

section \<open>Properties\<close>

subsection \<open>Masks and boolean indexing\<close>

lemma boolean_index_map: "boolean_index df (map P df) = filter P df"
  unfolding boolean_index_def by (induction df) auto

lemma mask_and_map: "mask_and (map P xs) (map Q xs) = map (\<lambda>x. P x \<and> Q x) xs"
  unfolding mask_and_def by (induction xs) auto

lemma series_eq_map: "series_eq (map f df) v = map (\<lambda>r. Some (f r) = v) df"
  unfolding series_eq_def by simp

lemma isin_map: "isin (map f df) vals = map (\<lambda>r. f r \<in> set vals) df"
  unfolding isin_def by simp

lemma filtered_df_filter:
  "filtered_df df year sel_state sel_crops =
     filter (\<lambda>r. Some (Crop_Year r) = year \<and> State_Name r \<in> set sel_state
                  \<and> Crop r \<in> set sel_crops) df"
  unfolding filtered_df_def
  by (simp add: series_eq_map isin_map mask_and_map boolean_index_map)

lemma history_df_filter:
  "history_df df sel_state sel_crops =
     filter (\<lambda>r. State_Name r \<in> set sel_state \<and> Crop r \<in> set sel_crops) df"
  unfolding history_df_def by (simp add: isin_map mask_and_map boolean_index_map)

text \<open>
  C1. The filtered subset is the list of exactly those records of the data set whose
  \<open>Crop_Year\<close> equals the selected year, whose \<open>State_Name\<close> is among the selected states and
  whose \<open>Crop\<close> is among the selected crops, in the order of the data set and as often as
  they occur there. With no state or no crop selected it is empty; \<open>filtered_df\<close> returns a
  list for every input, so no selection raises.
\<close>

theorem filtered_df_exact:
  "filtered_df df year sel_state sel_crops =
     filter (\<lambda>r. Some (Crop_Year r) = year \<and> State_Name r \<in> set sel_state
                  \<and> Crop r \<in> set sel_crops) df
   \<and> set (filtered_df df year sel_state sel_crops) =
     {r. r \<in> set df \<and> Some (Crop_Year r) = year \<and> State_Name r \<in> set sel_state
         \<and> Crop r \<in> set sel_crops}
   \<and> filtered_df df year [] sel_crops = []
   \<and> filtered_df df year sel_state [] = []"
  by (auto simp: filtered_df_filter)

theorem filtered_df_exact_witness:
  "filtered_df [scenario1, sample2, sample3] (Some 2020) [''Karnataka''] [''Rice''] = [scenario1]
   \<and> filtered_df [scenario1, sample2, sample3] (Some 2020) [] [''Rice''] = []"
  using filtered_df_exact [of "[scenario1, sample2, sample3]" "Some 2020" "[''Karnataka'']" "[''Rice'']"]
    filtered_df_exact [of "[scenario1, sample2, sample3]" "Some 2020" "[]" "[''Rice'']"]
  by (simp add: scenario1_def sample2_def sample3_def)

subsection \<open>Sums\<close>

lemma sum_foldl: "foldl (+) a xs = a + sum_list (xs::real list)"
  by (induction xs arbitrary: a) auto

lemma series_sum_sum_list: "series_sum col = sum_list col"
  unfolding series_sum_def by (simp add: sum_foldl)


text \<open>
  C2. The average yield is total production divided by total area when the total area is
  positive, and 0 when the total area is 0; the division is guarded, so \<open>avg_yield\<close> never
  ends in \<open>ZeroDivisionError\<close>.
\<close>

theorem avg_yield_guard:
  "(total_area fdf > 0 \<longrightarrow> avg_yield fdf = Inr (total_production fdf / total_area fdf))
   \<and> (total_area fdf = 0 \<longrightarrow> avg_yield fdf = Inr 0)
   \<and> avg_yield fdf \<noteq> Inl ZeroDivisionError"
  unfolding avg_yield_def true_div_def by auto

theorem avg_yield_guard_witness:
  "avg_yield [scenario1] = Inr 3 \<and> avg_yield [] = Inr 0"
  using avg_yield_guard [of "[scenario1]"] avg_yield_guard [of "[]"]
  by (simp add: total_area_def total_production_def series_sum_def scenario1_def)

subsection \<open>Sums in float64\<close>








































subsection \<open>Distinct values, sorting and grouping\<close>

lemma set_unique: "set (unique xs) = set xs"
  by (induction xs rule: unique.induct) auto

lemma distinct_unique: "distinct (unique xs)"
  by (induction xs rule: unique.induct) (auto simp: set_unique)

lemma sort_unique: "sort (unique xs) = sorted_list_of_set (set xs)"
proof (rule sorted_distinct_set_unique)
  show "sorted (sort (unique xs))" by simp
  show "distinct (sort (unique xs))" by (simp add: distinct_unique)
  show "sorted (sorted_list_of_set (set xs))" by simp
  show "distinct (sorted_list_of_set (set xs))" by simp
  show "set (sort (unique xs)) = set (sorted_list_of_set (set xs))" by (simp add: set_unique)
qed

lemma last_sorted_Max:
  fixes xs :: "'a::linorder list"
  assumes "sorted xs" "xs \<noteq> []"
  shows "last xs = Max (set xs)"
  using assms
proof (induction xs)
  case Nil
  then show ?case by simp
next
  case (Cons x xs)
  show ?case
  proof (cases "xs = []")
    case True
    then show ?thesis by simp
  next
    case False
    with Cons have ih: "last xs = Max (set xs)" by simp
    obtain a where a: "a \<in> set xs"
      using False by (cases xs) auto
    have "x \<le> a"
      using Cons.prems a by simp
    also have "a \<le> Max (set xs)"
      using a by simp
    finally have "x \<le> Max (set xs)" .
    with False ih show ?thesis by (simp add: max_absorb2)
  qed
qed

lemma groupby_sum_spec:
  "groupby_sum key val df =
     map (\<lambda>k. (k, \<Sum>r\<leftarrow>filter (\<lambda>r. key r = k) df. val r)) (sorted_list_of_set (key ` set df))"
  unfolding groupby_sum_def by (simp add: sort_unique series_sum_sum_list)

lemma default_year:
  "selected_year df \<lparr>picked_year = None, picked_states = ps, picked_crops = pc\<rparr> =
     (if df = [] then None else Some (Max (Crop_Year ` set df)))"
proof (cases "df = []")
  case True
  then show ?thesis by (simp add: selected_year_def selectbox_def all_years_def)
next
  case False
  let ?ys = "all_years df"
  have ne: "?ys \<noteq> []"
    using False by (metis all_years_def set_unique set_sort list.map_disc_iff set_empty)
  have "?ys ! nat (int (length ?ys) - 1) = last ?ys"
    using ne by (simp add: last_conv_nth nat_diff_distrib')
  also have "\<dots> = Max (set ?ys)"
    using ne by (simp add: last_sorted_Max all_years_def)
  also have "set ?ys = Crop_Year ` set df"
    by (simp add: all_years_def set_unique)
  finally show ?thesis
    using False ne by (simp add: selected_year_def selectbox_def)
qed

text \<open>
  C8. While the user has not touched a widget: the selected year is the greatest year of
  the data set (and nothing when the data set has no record, where no year is present);
  the selected states are the first two of the distinct states in ascending order; the
  selected crops are the first three of the distinct crops in ascending order.
\<close>

theorem default_selections:
  "selected_year df \<lparr>picked_year = None, picked_states = ps, picked_crops = pc\<rparr> =
     (if df = [] then None else Some (Max (Crop_Year ` set df)))
   \<and> selected_state df \<lparr>picked_year = py, picked_states = None, picked_crops = pc\<rparr> =
     take 2 (sorted_list_of_set (State_Name ` set df))
   \<and> selected_crops df \<lparr>picked_year = py, picked_states = ps, picked_crops = None\<rparr> =
     take 3 (sorted_list_of_set (Crop ` set df))"
  by (simp add: default_year selected_state_def selected_crops_def multiselect_def
      all_states_def all_crops_def sort_unique)

theorem default_selections_witness:
  "Some (Max (Crop_Year ` set [scenario1, sample2, sample3])) = Some 2021
   \<and> take 2 (sorted_list_of_set (State_Name ` set [scenario1, sample2, sample3])) =
       [''Bihar'', ''Karnataka'']
   \<and> take 3 (sorted_list_of_set (Crop ` set [scenario1, sample2, sample3])) =
       [''Rice'', ''Wheat'']"
proof -
  have y: "selected_year [scenario1, sample2, sample3] no_picks = Some 2021"
    by code_simp
  have s: "selected_state [scenario1, sample2, sample3] no_picks = [''Bihar'', ''Karnataka'']"
    by code_simp
  have c: "selected_crops [scenario1, sample2, sample3] no_picks = [''Rice'', ''Wheat'']"
    by code_simp
  show ?thesis
    using default_selections [where df = "[scenario1, sample2, sample3]" and py = None
        and ps = None and pc = None] y s c
    unfolding no_picks_def by simp
qed

subsection \<open>The two subsets\<close>

lemma render_page:
  "render df u =
     (let fdf = filtered_df df (selected_year df u) (selected_state df u) (selected_crops df u)
      in Inr \<lparr>metric_production = total_production fdf,
              metric_area = total_area fdf,
              metric_yield = (if total_area fdf > 0 then total_production fdf / total_area fdf else 0),
              bar_data = groupby_sum Crop Production fdf,
              pie_data = fdf,
              line_data = yearly_prod (history_df df (selected_state df u) (selected_crops df u)),
              scatter_data = fdf,
              table_data = fdf\<rparr>)"
  unfolding render_def avg_yield_def true_div_def Let_def by simp

text \<open>
  C4. The subset behind the trend chart is the data set filtered by state and crop only,
  so the years it holds are the years of all records of the data set with a selected state
  and a selected crop. The chart's data has one row per distinct (year, state) pair of the
  subset, the pairs ascending, each with the sum of \<open>Production\<close> over the records of that
  pair. A run of the script puts exactly this on the line chart, and changing the picked
  year changes nothing of it.
\<close>

theorem trend_all_years:
  "history_df df sel_state sel_crops =
     filter (\<lambda>r. State_Name r \<in> set sel_state \<and> Crop r \<in> set sel_crops) df
   \<and> Crop_Year ` set (history_df df sel_state sel_crops) =
     {Crop_Year r |r. r \<in> set df \<and> State_Name r \<in> set sel_state \<and> Crop r \<in> set sel_crops}
   \<and> yearly_prod (history_df df sel_state sel_crops) =
     map (\<lambda>k. (k, \<Sum>r\<leftarrow>filter (\<lambda>r. (Crop_Year r, State_Name r) = k)
                             (history_df df sel_state sel_crops). Production r))
         (sorted_list_of_set
            ((\<lambda>r. (Crop_Year r, State_Name r)) ` set (history_df df sel_state sel_crops)))
   \<and> (\<exists>p q. render df u = Inr p \<and> render df (u\<lparr>picked_year := y\<rparr>) = Inr q
        \<and> line_data p = yearly_prod (history_df df (selected_state df u) (selected_crops df u))
        \<and> line_data q = line_data p)"
proof -
  have a: "history_df df sel_state sel_crops =
     filter (\<lambda>r. State_Name r \<in> set sel_state \<and> Crop r \<in> set sel_crops) df"
    by (rule history_df_filter)
  have b: "Crop_Year ` set (history_df df sel_state sel_crops) =
     {Crop_Year r |r. r \<in> set df \<and> State_Name r \<in> set sel_state \<and> Crop r \<in> set sel_crops}"
    unfolding a by auto
  have c: "yearly_prod (history_df df sel_state sel_crops) =
     map (\<lambda>k. (k, \<Sum>r\<leftarrow>filter (\<lambda>r. (Crop_Year r, State_Name r) = k)
                             (history_df df sel_state sel_crops). Production r))
         (sorted_list_of_set
            ((\<lambda>r. (Crop_Year r, State_Name r)) ` set (history_df df sel_state sel_crops)))"
    unfolding yearly_prod_def by (rule groupby_sum_spec)
  have s: "selected_state df (u\<lparr>picked_year := y\<rparr>) = selected_state df u"
    "selected_crops df (u\<lparr>picked_year := y\<rparr>) = selected_crops df u"
    by (simp_all add: selected_state_def selected_crops_def)
  have d: "\<exists>p q. render df u = Inr p \<and> render df (u\<lparr>picked_year := y\<rparr>) = Inr q
        \<and> line_data p = yearly_prod (history_df df (selected_state df u) (selected_crops df u))
        \<and> line_data q = line_data p"
    by (simp add: render_page s Let_def)
  from a b c d show ?thesis by blast
qed

theorem trend_all_years_witness:
  "history_df [scenario1, sample2, sample3] [''Karnataka''] [''Rice''] = [scenario1, sample2]
   \<and> (\<exists>p q. render [scenario1, sample2, sample3] no_picks = Inr p
        \<and> render [scenario1, sample2, sample3] (no_picks\<lparr>picked_year := Some 2020\<rparr>) = Inr q
        \<and> line_data q = line_data p)"
proof -
  note t = trend_all_years [of "[scenario1, sample2, sample3]" "[''Karnataka'']" "[''Rice'']"
      no_picks "Some 2020"]
  have "history_df [scenario1, sample2, sample3] [''Karnataka''] [''Rice''] = [scenario1, sample2]"
    using t by (simp add: scenario1_def sample2_def sample3_def)
  moreover have "\<exists>p q. render [scenario1, sample2, sample3] no_picks = Inr p
        \<and> render [scenario1, sample2, sample3] (no_picks\<lparr>picked_year := Some 2020\<rparr>) = Inr q
        \<and> line_data q = line_data p"
    using t by blast
  ultimately show ?thesis by blast
qed

text \<open>
  C10. The filtered subset is the trend subset restricted to the records of the selected
  year, whether the restriction is written as a filter or as the script's own mask and
  index; filtering by year first and by state and crop afterwards gives the same; and
  every record of the filtered subset is in the trend subset.
\<close>

theorem year_filter_factors:
  "filtered_df df year sel_state sel_crops =
     filter (\<lambda>r. Some (Crop_Year r) = year) (history_df df sel_state sel_crops)
   \<and> filtered_df df year sel_state sel_crops =
     boolean_index (history_df df sel_state sel_crops)
       (series_eq (map Crop_Year (history_df df sel_state sel_crops)) year)
   \<and> filtered_df df year sel_state sel_crops =
     history_df (filter (\<lambda>r. Some (Crop_Year r) = year) df) sel_state sel_crops
   \<and> set (filtered_df df year sel_state sel_crops) \<subseteq> set (history_df df sel_state sel_crops)"
  by (auto simp: filtered_df_filter history_df_filter series_eq_map boolean_index_map conj_commute
      intro: filter_cong)

theorem year_filter_factors_witness:
  "filtered_df [scenario1, sample2, sample3] (Some 2020) [''Karnataka''] [''Rice''] =
     filter (\<lambda>r. Some (Crop_Year r) = Some 2020) [scenario1, sample2]
   \<and> set (filtered_df [scenario1, sample2, sample3] (Some 2020) [''Karnataka''] [''Rice''])
       \<subseteq> {scenario1, sample2}"
proof -
  have h: "history_df [scenario1, sample2, sample3] [''Karnataka''] [''Rice''] =
      [scenario1, sample2]"
    by (simp add: history_df_filter scenario1_def sample2_def sample3_def)
  show ?thesis
    using year_filter_factors [of "[scenario1, sample2, sample3]" "Some 2020"
        "[''Karnataka'']" "[''Rice'']"]
    unfolding h by simp
qed

subsection \<open>The synthetic generator\<close>

lemma round_half_even_floor: "\<lfloor>y\<rfloor> \<le> round_half_even y"
  unfolding round_half_even_def Let_def by simp

lemma round_half_even_mono_int:
  assumes "of_int n \<le> y"
  shows "n \<le> round_half_even y"
proof -
  have "n \<le> \<lfloor>y\<rfloor>"
    using assms by (simp add: le_floor_iff)
  also have "\<lfloor>y\<rfloor> \<le> round_half_even y"
    by (rule round_half_even_floor)
  finally show ?thesis .
qed


lemma round2_ge: "40 \<le> x \<Longrightarrow> 40 \<le> round2 x"
proof -
  assume "40 \<le> x"
  then have "of_int 4000 \<le> x * 100" by simp
  then have "4000 \<le> round_half_even (x * 100)" by (rule round_half_even_mono_int)
  then have "(4000::real) \<le> of_int (round_half_even (x * 100))" by linarith
  then show ?thesis unfolding round2_def by simp
qed

lemma yield_factor_values:
  "yield_factor ''Rice'' = Some 3" "yield_factor ''Wheat'' = Some 3.5"
  "yield_factor ''Maize'' = Some 4" "yield_factor ''Sugarcane'' = Some 60"
  "yield_factor ''Cotton'' = Some 0.5" "yield_factor ''Groundnut'' = Some 1.5"
  unfolding yield_factor_def by simp_all

lemma yield_factor_crops_case:
  assumes "c \<in> set crops"
  shows "case yield_factor c of None \<Rightarrow> False | Some yf \<Rightarrow> 1/2 \<le> yf \<and> yf \<le> 60"
  using assms unfolding crops_def by (auto simp: yield_factor_values)

lemma yield_factor_crops:
  assumes "c \<in> set crops"
  shows "\<exists>yf. yield_factor c = Some yf \<and> 1/2 \<le> yf \<and> yf \<le> 60"
  using yield_factor_crops_case [OF assms] by (cases "yield_factor c") auto

lemma production_ge_40:
  fixes yf u :: real
  assumes "100 \<le> a" "1/2 \<le> yf" "0.8 \<le> u"
  shows "40 \<le> of_int a * yf * u"
proof -
  have a: "(100::real) \<le> of_int a" using assms(1) by linarith
  have "100 * (1/2) \<le> of_int a * yf"
    using mult_mono [OF a assms(2)] a by simp
  then have b: "50 \<le> of_int a * yf" by simp
  have "50 * 0.8 \<le> of_int a * yf * u"
    using mult_mono [OF b assms(3)] b by simp
  then show ?thesis by simp
qed

lemma years_list: "years = [2015, 2016, 2017, 2018, 2019, 2020, 2021, 2022, 2023]"
  unfolding years_def by (simp add: upt_rec)

lemma years_range: "y \<in> set years \<longleftrightarrow> 2015 \<le> y \<and> y \<le> 2023"
  unfolding years_def by auto

text \<open>What the arguments of a call enforce, whatever the generator hands out.\<close>

lemma choice_in:
  assumes "a \<noteq> []"
  shows "\<exists>x. choice a raw = Inr x \<and> x \<in> set a"
  using assms by (simp add: choice_def)

lemma randint_in:
  assumes "low < high"
  shows "\<exists>n. randint low high raw = Inr n \<and> low \<le> n \<and> n < high"
proof -
  from assms have d: "0 < high - low" by simp
  have "0 \<le> int raw mod (high - low)" "int raw mod (high - low) < high - low"
    using d by (simp_all only: pos_mod_sign pos_mod_bound)
  then have "low \<le> low + int raw mod (high - low)" "low + int raw mod (high - low) < high"
    by linarith+
  with assms show ?thesis by (simp add: randint_def)
qed

lemma random_sample_unit: "0 \<le> random_sample raw \<and> random_sample raw < 1"
proof -
  have "raw mod 2 ^ 53 < (2 ^ 53 :: nat)" by simp
  then have "(of_nat (raw mod 2 ^ 53) :: real) < of_nat (2 ^ 53)"
    by (simp only: of_nat_less_iff)
  then show ?thesis by (simp add: random_sample_def)
qed

lemma uniform_in:
  assumes "low < high"
  shows "low \<le> uniform low high raw \<and> uniform low high raw < high"
proof -
  from random_sample_unit [of raw] have s: "0 \<le> random_sample raw" "random_sample raw < 1"
    by simp_all
  have "0 \<le> (high - low) * random_sample raw"
    using assms s(1) by simp
  moreover have "(high - low) * random_sample raw < (high - low) * 1"
    using mult_strict_left_mono [OF s(2), of "high - low"] assms by simp
  ultimately show ?thesis by (simp add: uniform_def)
qed

lemma states_nonempty: "states \<noteq> []"
  and crops_nonempty: "crops \<noteq> []"
  and seasons_nonempty: "seasons \<noteq> []"
  and years_nonempty: "years \<noteq> []"
  by (simp_all add: states_def crops_def seasons_def years_list)

lemma make_row_result:
  "\<exists>st yr se cr a yf.
     choice states (g 0) = Inr st \<and> choice crops (g 1) = Inr cr
   \<and> choice years (g 2) = Inr yr \<and> choice seasons (g 3) = Inr se
   \<and> randint 100 10000 (g 4) = Inr a \<and> yield_factor cr = Some yf
   \<and> make_row g = Inr [CStr st, CInt yr, CStr se, CStr cr, CInt a,
                        CFloat (round2 (of_int a * yf * uniform 0.8 1.2 (g 5)))]
   \<and> st \<in> set states \<and> cr \<in> set crops \<and> se \<in> set seasons
   \<and> 2015 \<le> yr \<and> yr \<le> 2023 \<and> 100 \<le> a \<and> a < 10000
   \<and> 0.8 \<le> uniform 0.8 1.2 (g 5) \<and> uniform 0.8 1.2 (g 5) < 1.2
   \<and> 0 < round2 (of_int a * yf * uniform 0.8 1.2 (g 5))"
proof -
  obtain st where st: "choice states (g 0) = Inr st" "st \<in> set states"
    using choice_in [OF states_nonempty, of "g 0"] by blast
  obtain cr where cr: "choice crops (g 1) = Inr cr" "cr \<in> set crops"
    using choice_in [OF crops_nonempty, of "g 1"] by blast
  obtain yr where yr: "choice years (g 2) = Inr yr" "yr \<in> set years"
    using choice_in [OF years_nonempty, of "g 2"] by blast
  obtain se where se: "choice seasons (g 3) = Inr se" "se \<in> set seasons"
    using choice_in [OF seasons_nonempty, of "g 3"] by blast
  have "(100::int) < 10000" by simp
  from randint_in [OF this, of "g 4"]
  obtain a where a: "randint 100 10000 (g 4) = Inr a" "100 \<le> a" "a < 10000"
    by blast
  obtain yf where yf: "yield_factor cr = Some yf" "1/2 \<le> yf"
    using yield_factor_crops [OF cr(2)] by blast
  have "(0.8::real) < 1.2" by simp
  from uniform_in [OF this, of "g 5"]
  have u: "0.8 \<le> uniform 0.8 1.2 (g 5)" "uniform 0.8 1.2 (g 5) < 1.2"
    by simp_all
  have "40 \<le> round2 (of_int a * yf * uniform 0.8 1.2 (g 5))"
    using a(2) yf(2) u(1) by (intro round2_ge production_ge_40)
  then have pos: "0 < round2 (of_int a * yf * uniform 0.8 1.2 (g 5))" by linarith
  have row: "make_row g = Inr [CStr st, CInt yr, CStr se, CStr cr, CInt a,
                        CFloat (round2 (of_int a * yf * uniform 0.8 1.2 (g 5)))]"
    unfolding make_row_def st(1) cr(1) yr(1) se(1) a(1) by (simp add: yf(1))
  from yr(2) have y: "2015 \<le> yr" "yr \<le> 2023" by (simp_all add: years_range)
  from st cr yr(1) se a yf(1) row y u pos show ?thesis by blast
qed

lemma generate_rows:
  "\<exists>data. generate g n = Inr data \<and> length data = n \<and>
           (\<forall>i<n. make_row (advance (6 * i) g) = Inr (data ! i))"
proof (induction n)
  case 0
  then show ?case by simp
next
  case (Suc n)
  then obtain data where d: "generate g n = Inr data" "length data = n"
      "\<forall>i<n. make_row (advance (6 * i) g) = Inr (data ! i)"
    by blast
  from make_row_result [of "advance (6 * n) g"] obtain row where
    r: "make_row (advance (6 * n) g) = Inr row" by blast
  have "\<forall>i<Suc n. make_row (advance (6 * i) g) = Inr ((data @ [row]) ! i)"
    using d r by (auto simp: nth_append less_Suc_eq)
  with d r show ?case by simp
qed

lemma synthetic_returns: "\<exists>t. synthetic g = Inr t \<and> length (rows t) = 1000"
proof -
  from generate_rows [of g 1000] obtain data where
    "generate g 1000 = Inr data" "length data = 1000" by blast
  then show ?thesis by (simp add: synthetic_def)
qed











subsection \<open>Column labels\<close>

lemma strip_parts:
  "\<exists>a b. s = a @ strip s @ b \<and> list_all isspace a \<and> list_all isspace b
     \<and> (strip s = [] \<or> (\<not> isspace (hd (strip s)) \<and> \<not> isspace (last (strip s))))"
proof -
  let ?t = "dropWhile isspace s"
  let ?a = "takeWhile isspace s"
  let ?b = "rev (takeWhile isspace (rev ?t))"
  have st: "strip s = rev (dropWhile isspace (rev ?t))"
    by (simp add: strip_def rstrip_def lstrip_def)
  have "rev (dropWhile isspace (rev ?t)) @ ?b =
      rev (takeWhile isspace (rev ?t) @ dropWhile isspace (rev ?t))"
    by (simp only: rev_append)
  also have "\<dots> = rev (rev ?t)"
    by (simp only: takeWhile_dropWhile_id)
  also have "\<dots> = ?t"
    by (simp only: rev_rev_ident)
  finally have "strip s @ ?b = ?t"
    unfolding st .
  then have t: "?t = strip s @ ?b"
    by (rule sym)
  have s: "s = ?a @ strip s @ ?b"
    using t takeWhile_dropWhile_id [of isspace s] by metis
  have a: "list_all isspace ?a"
    by (simp add: list_all_iff) (meson set_takeWhileD)
  have b: "list_all isspace ?b"
    by (simp add: list_all_iff) (meson set_takeWhileD)
  have e: "\<not> isspace (hd (strip s)) \<and> \<not> isspace (last (strip s))" if ne: "strip s \<noteq> []"
  proof
    have tne: "?t \<noteq> []" using t ne by (metis Nil_is_append_conv)
    have "hd (strip s) = hd ?t"
      using t ne by (metis hd_append2)
    then show "\<not> isspace (hd (strip s))"
      using tne by (metis hd_dropWhile)
    from ne have dne: "dropWhile isspace (rev ?t) \<noteq> []" unfolding st by simp
    have "last (strip s) = hd (dropWhile isspace (rev ?t))"
      unfolding st using dne by (simp add: last_rev)
    then show "\<not> isspace (last (strip s))"
      using dne by (metis hd_dropWhile)
  qed
  from s a b e show ?thesis by blast
qed

lemma normalize_column_map:
  "normalize_column s = map (\<lambda>c. if c = CHR '' '' then CHR ''_'' else c) (strip s)"
  by (simp add: normalize_column_def replace_def)

lemma normalize_column_no_space: "CHR '' '' \<notin> set (normalize_column s)"
  by (auto simp: normalize_column_map)

lemma normalize_crop_year: "normalize_column '' Crop Year '' = ''Crop_Year''"
  by (simp add: normalize_column_def replace_def strip_def rstrip_def lstrip_def isspace_def)

lemma index_of_None: "index_of xs a = None \<longleftrightarrow> a \<notin> set xs"
  by (induction xs) auto

lemma getitem_present:
  assumes "name \<in> set (columns df)"
  shows "\<exists>cells. getitem df name = Inr cells \<and> length cells = length (rows df)"
proof -
  from assms obtain i where "index_of (columns df) name = Some i"
    using index_of_None [of "columns df" name] by (cases "index_of (columns df) name") auto
  then show ?thesis by (simp add: getitem_def)
qed

text \<open>
  C7. When the file loads, \<open>load_data\<close> returns the parsed table with every column label
  normalized and the rows as they were parsed, and shows no warning. Normalizing a label
  strips it (what is cut off at either end is whitespace only, and what remains neither
  starts nor ends with whitespace) and then turns every space that is left into an
  underscore. The label \<open>" Crop Year "\<close> becomes \<open>Crop_Year\<close>, and every column of the file can
  be addressed in the loaded table by its normalized label.
\<close>

theorem load_data_normalizes:
  assumes "read_csv e = Inr df"
  shows "load_data e = ([], Inr \<lparr>columns = map normalize_column (columns df), rows = rows df\<rparr>)
    \<and> (\<forall>s. normalize_column s = map (\<lambda>c. if c = CHR '' '' then CHR ''_'' else c) (strip s)
        \<and> (\<exists>a b. s = a @ strip s @ b \<and> list_all isspace a \<and> list_all isspace b
             \<and> (strip s = [] \<or> (\<not> isspace (hd (strip s)) \<and> \<not> isspace (last (strip s))))))
    \<and> normalize_column '' Crop Year '' = ''Crop_Year''
    \<and> (\<forall>name \<in> set (columns df). \<exists>cells.
          getitem \<lparr>columns = map normalize_column (columns df), rows = rows df\<rparr>
            (normalize_column name) = Inr cells \<and> length cells = length (rows df))"
proof -
  have 1: "load_data e = ([], Inr \<lparr>columns = map normalize_column (columns df), rows = rows df\<rparr>)"
    using assms by (simp add: load_data_def)
  have 4: "\<exists>cells. getitem \<lparr>columns = map normalize_column (columns df), rows = rows df\<rparr>
            (normalize_column name) = Inr cells \<and> length cells = length (rows df)"
    if "name \<in> set (columns df)" for name
    using getitem_present [of "normalize_column name"
        "\<lparr>columns = map normalize_column (columns df), rows = rows df\<rparr>"] that
    by simp
  from 1 4 normalize_column_map strip_parts normalize_crop_year show ?thesis by blast
qed

theorem load_data_normalizes_witness:
  "load_data env_file =
     ([], Inr \<lparr>columns = [''State_Name'', ''Crop_Year'', ''Season'', ''Crop'', ''Area'', ''Production''],
              rows = rows sample_csv\<rparr>)
   \<and> getitem sample_csv ''Crop_Year'' = Inl (KeyError ''Crop_Year'')
   \<and> getitem \<lparr>columns = map normalize_column (columns sample_csv), rows = rows sample_csv\<rparr>
       ''Crop_Year'' = Inr [Some (CInt 2020)]"
proof -
  have r: "read_csv env_file = Inr sample_csv" by (simp add: env_file_def)
  have n: "map normalize_column (columns sample_csv) =
      [''State_Name'', ''Crop_Year'', ''Season'', ''Crop'', ''Area'', ''Production'']"
    by (simp add: sample_csv_def normalize_column_def replace_def strip_def rstrip_def lstrip_def
        isspace_def)
  have g: "getitem sample_csv ''Crop_Year'' = Inl (KeyError ''Crop_Year'')"
    by (simp add: getitem_def sample_csv_def)
  have h: "getitem \<lparr>columns = map normalize_column (columns sample_csv), rows = rows sample_csv\<rparr>
       ''Crop_Year'' = Inr [Some (CInt 2020)]"
    unfolding n by (simp add: getitem_def sample_csv_def)
  from load_data_normalizes [OF r] n g h show ?thesis by simp
qed

subsection \<open>Load failures\<close>

lemma cached_load_data_miss_error:
  assumes "cache s = None" "load_data e = (msgs, Inl err)"
  shows "cached_load_data s e = (s, msgs, Inl err)"
  using assms by (simp add: cached_load_data_def)

text \<open>
  C6. \<open>load_data\<close> catches one exception. When \<open>read_csv\<close> raises \<open>FileNotFoundError\<close> it
  shows the warning and returns what the generator returns, always a table of 1000
  rows. When \<open>read_csv\<close> raises anything else, \<open>load_data\<close> shows nothing
  and ends in that same exception, and a run of the script that had to load ends there,
  with no page and the state of the process as it was. When \<open>read_csv\<close> returns, no warning
  is shown.
\<close>

theorem load_data_errors:
  "(read_csv e = Inl FileNotFoundError \<longrightarrow>
      load_data e = ([warning_text], synthetic (random e))
      \<and> (\<exists>t. load_data e = ([warning_text], Inr t) \<and> length (rows t) = 1000))
   \<and> (read_csv e = Inl err \<and> err \<noteq> FileNotFoundError \<longrightarrow>
        load_data e = ([], Inl err)
        \<and> (cache s = None \<longrightarrow> run_script s e u = (s, [], Some (Inl err))))
   \<and> (read_csv e = Inr df \<longrightarrow> (\<exists>t. load_data e = ([], Inr t)))"
proof (intro conjI impI)
  assume "read_csv e = Inl FileNotFoundError"
  then show l: "load_data e = ([warning_text], synthetic (random e))"
    by (simp add: load_data_def)
  from synthetic_returns [of "random e"] l
  show "\<exists>t. load_data e = ([warning_text], Inr t) \<and> length (rows t) = 1000"
    by auto
next
  assume a: "read_csv e = Inl err \<and> err \<noteq> FileNotFoundError"
  then show l: "load_data e = ([], Inl err)"
    by (simp add: load_data_def)
  assume "cache s = None"
  then show "run_script s e u = (s, [], Some (Inl err))"
    using l by (simp add: run_script_def cached_load_data_def)
next
  assume "read_csv e = Inr df"
  then show "\<exists>t. load_data e = ([], Inr t)"
    by (simp add: load_data_def)
qed

theorem load_data_errors_witness:
  "(\<exists>t. load_data env_missing = ([warning_text], Inr t) \<and> length (rows t) = 1000)
   \<and> load_data env_denied = ([], Inl PermissionError)
   \<and> run_script fresh env_denied no_picks = (fresh, [], Some (Inl PermissionError))"
proof -
  have m: "read_csv env_missing = Inl FileNotFoundError"
    by (simp add: env_missing_def)
  have d: "read_csv env_denied = Inl PermissionError \<and> PermissionError \<noteq> FileNotFoundError"
    and f: "cache fresh = None"
    by (simp_all add: env_denied_def fresh_def)
  from load_data_errors [of env_missing PermissionError fresh no_picks sample_csv] m
  have 1: "\<exists>t. load_data env_missing = ([warning_text], Inr t) \<and> length (rows t) = 1000"
    by blast
  from load_data_errors [of env_denied PermissionError fresh no_picks sample_csv] d f
  have 2: "load_data env_denied = ([], Inl PermissionError)"
    and 3: "run_script fresh env_denied no_picks = (fresh, [], Some (Inl PermissionError))"
    by blast+
  from 1 2 3 show ?thesis by blast
qed

subsection \<open>The cache and the objects of a run\<close>

lemma avg_yield_returns:
  "avg_yield fdf = Inr (if total_area fdf > 0 then total_production fdf / total_area fdf else 0)"
  unfolding avg_yield_def true_div_def by simp

lemma script_body_objects:
  assumes "df < length h"
  shows "\<exists>pg. render (h ! df) u = Inr pg
    \<and> script_body h df u =
        (h @ [filtered_df (h ! df) (selected_year (h ! df) u) (selected_state (h ! df) u)
                (selected_crops (h ! df) u),
              history_df (h ! df) (selected_state (h ! df) u) (selected_crops (h ! df) u)],
         Inr (\<lparr>ref_df = df, ref_filtered_df = length h, ref_history_df = Suc (length h)\<rparr>, pg))"
  using assms
  by (simp add: script_body_def alloc_def Let_def avg_yield_returns render_page nth_append)

lemma cached_hit:
  assumes "cache s = Some (msgs, df)"
  shows "cached_load_data s e = (s, msgs, Inr df)"
  using assms by (simp add: cached_load_data_def)

lemma cached_miss_returns:
  assumes "cache s = None" "load_data e = (msgs, Inr df)"
  shows "cached_load_data s e = (s\<lparr>cache := Some (msgs, df)\<rparr>, msgs, Inr df)"
  using assms by (simp add: cached_load_data_def)

lemma cached_miss_raises:
  assumes "cache s = None" "load_data e = (msgs, Inl err)"
  shows "cached_load_data s e = (s, msgs, Inl err)"
  using assms by (simp add: cached_load_data_def)

lemma calls_cached:
  assumes "cache s = Some (msgs, df)"
  shows "calls s es = replicate (length es) (msgs, Inr df)"
  using assms by (induction es) (simp_all add: cached_hit)

lemma calls_first:
  assumes "cache s = None" "load_data e = (msgs, Inr df)"
  shows "calls s (e # es) = replicate (Suc (length es)) (msgs, Inr df)"
proof -
  have "cache (s\<lparr>cache := Some (msgs, df)\<rparr>) = Some (msgs, df)" by simp
  from calls_cached [OF this, of es] cached_miss_returns [OF assms]
  show ?thesis by simp
qed

lemma run_script_state: "fst (run_script s e u) = fst (cached_load_data s e)"
  unfolding run_script_def by (auto split: prod.splits sum.splits)

lemma session_cached:
  assumes "cache s = Some c"
  shows "session s runs = s"
  using assms
proof (induction runs)
  case Nil
  then show ?case by simp
next
  case (Cons r runs)
  obtain e u where r: "r = (e, u)" by (cases r)
  obtain msgs df where c: "c = (msgs, df)" by (cases c)
  have "fst (run_script s e u) = s"
    using Cons.prems c by (simp add: run_script_state cached_hit)
  with Cons r show ?case by simp
qed

lemma run_script_render:
  "run_script s e u =
     (case cached_load_data s e of
        (s', msgs, Inl err) \<Rightarrow> (s', msgs, Some (Inl err))
      | (s', msgs, Inr df) \<Rightarrow> (s', msgs, map_option (\<lambda>rs. render rs u) (records_of df)))"
proof -
  have "(case alloc rs [] of (a, h) \<Rightarrow> map_sum id snd (snd (script_body h a u))) = render rs u"
    for rs
    using script_body_objects [of 0 "[rs]" u] by (auto simp: alloc_def)
  then have eq: "(\<lambda>rs. case alloc rs [] of (a, h) \<Rightarrow> map_sum id snd (snd (script_body h a u))) =
      (\<lambda>rs. render rs u)"
    by (rule ext)
  show ?thesis
    unfolding run_script_def eq ..
qed

lemma run_script_page:
  assumes "run_script s e u = (s', msgs, Some (Inr pg))"
  shows "\<exists>df rs. cache s' = Some (msgs, df) \<and> records_of df = Some rs \<and> render rs u = Inr pg"
  using assms unfolding run_script_render cached_load_data_def
  by (auto split: option.splits prod.splits sum.splits)

lemma run_script_cached:
  assumes "cache s = Some (msgs, df)" "records_of df = Some rs"
  shows "run_script s e u = (s, msgs, Some (render rs u))"
  using assms by (simp add: run_script_render cached_hit)

text \<open>
  C9. A call of \<open>load_data()\<close> that finds the cache empty and whose body returns a table
  stores exactly that table and returns it, and this call and all later ones return it,
  whatever the file and the generator have become; a call whose body raises stores nothing.
  Once the cache holds a table, a call returns it without consulting the world, any number
  of further runs leave the state of the process as it is, and a run renders its page from
  that table. A run that reached its page leaves the table it rendered from in the cache.
  Within a run the statements after \<open>load_data()\<close> only add objects: the filtered subset and
  the trend subset are new objects, and every object that existed, the loaded table among
  them, is afterwards what it was.
\<close>

theorem dataset_computed_once:
  "(cache s = None \<and> load_data e = (msgs, Inr df) \<longrightarrow>
      cached_load_data s e = (s\<lparr>cache := Some (msgs, df)\<rparr>, msgs, Inr df)
      \<and> calls s (e # es) = replicate (Suc (length es)) (msgs, Inr df))
   \<and> (cache s = None \<and> load_data e = (msgs, Inl err) \<longrightarrow>
        cached_load_data s e = (s, msgs, Inl err))
   \<and> (cache s = Some (msgs, df) \<longrightarrow>
        cached_load_data s e = (s, msgs, Inr df)
        \<and> calls s es = replicate (length es) (msgs, Inr df)
        \<and> session s runs = s
        \<and> (\<forall>rs. records_of df = Some rs \<longrightarrow>
              run_script s e u = (s, msgs, Some (render rs u))))
   \<and> (run_script s e u = (s', msgs', Some (Inr pg)) \<longrightarrow>
        (\<exists>df' rs. cache s' = Some (msgs', df') \<and> records_of df' = Some rs
           \<and> render rs u = Inr pg \<and> session s' runs = s'))
   \<and> (a < length h \<longrightarrow>
        (\<exists>pg'. render (h ! a) u = Inr pg'
           \<and> script_body h a u =
               (h @ [filtered_df (h ! a) (selected_year (h ! a) u) (selected_state (h ! a) u)
                       (selected_crops (h ! a) u),
                     history_df (h ! a) (selected_state (h ! a) u) (selected_crops (h ! a) u)],
                Inr (\<lparr>ref_df = a, ref_filtered_df = length h, ref_history_df = Suc (length h)\<rparr>,
                     pg')))
        \<and> take (length h) (fst (script_body h a u)) = h
        \<and> fst (script_body h a u) ! a = h ! a)"
proof (intro conjI impI)
  assume m: "cache s = None \<and> load_data e = (msgs, Inr df)"
  then show "cached_load_data s e = (s\<lparr>cache := Some (msgs, df)\<rparr>, msgs, Inr df)"
    by (simp add: cached_miss_returns)
  from m show "calls s (e # es) = replicate (Suc (length es)) (msgs, Inr df)"
    by (simp only: calls_first)
next
  assume "cache s = None \<and> load_data e = (msgs, Inl err)"
  then show "cached_load_data s e = (s, msgs, Inl err)"
    by (simp add: cached_miss_raises)
next
  assume c: "cache s = Some (msgs, df)"
  then show "cached_load_data s e = (s, msgs, Inr df)" by (rule cached_hit)
  from c show "calls s es = replicate (length es) (msgs, Inr df)" by (rule calls_cached)
  from c show "session s runs = s" by (rule session_cached)
  from c show "\<forall>rs. records_of df = Some rs \<longrightarrow>
      run_script s e u = (s, msgs, Some (render rs u))"
    by (simp add: run_script_cached)
next
  assume "run_script s e u = (s', msgs', Some (Inr pg))"
  from run_script_page [OF this] obtain df' rs where
    r: "cache s' = Some (msgs', df')" "records_of df' = Some rs" "render rs u = Inr pg"
    by blast
  from r(1) have "session s' runs = s'" by (rule session_cached)
  with r show "\<exists>df' rs. cache s' = Some (msgs', df') \<and> records_of df' = Some rs
           \<and> render rs u = Inr pg \<and> session s' runs = s'"
    by blast
next
  assume a: "a < length h"
  from script_body_objects [OF a, of u] obtain pg' where
    p: "render (h ! a) u = Inr pg'"
       "script_body h a u =
               (h @ [filtered_df (h ! a) (selected_year (h ! a) u) (selected_state (h ! a) u)
                       (selected_crops (h ! a) u),
                     history_df (h ! a) (selected_state (h ! a) u) (selected_crops (h ! a) u)],
                Inr (\<lparr>ref_df = a, ref_filtered_df = length h, ref_history_df = Suc (length h)\<rparr>,
                     pg'))"
    by blast
  then show "\<exists>pg'. render (h ! a) u = Inr pg'
           \<and> script_body h a u =
               (h @ [filtered_df (h ! a) (selected_year (h ! a) u) (selected_state (h ! a) u)
                       (selected_crops (h ! a) u),
                     history_df (h ! a) (selected_state (h ! a) u) (selected_crops (h ! a) u)],
                Inr (\<lparr>ref_df = a, ref_filtered_df = length h, ref_history_df = Suc (length h)\<rparr>,
                     pg'))"
    by blast
  from p(2) show "take (length h) (fst (script_body h a u)) = h" by simp
  from p(2) a show "fst (script_body h a u) ! a = h ! a" by (simp add: nth_append)
qed

lemma records_of_sample_csv:
  "records_of \<lparr>columns = map normalize_column (columns sample_csv), rows = rows sample_csv\<rparr> =
     Some [scenario1]"
  by (simp add: records_of_def sample_csv_def normalize_column_def replace_def strip_def
      rstrip_def lstrip_def isspace_def row_record_def field_def scenario1_def)

theorem dataset_computed_once_witness:
  "calls fresh [env_file, env_missing, env_denied] =
     replicate 3 ([], Inr \<lparr>columns = map normalize_column (columns sample_csv),
                            rows = rows sample_csv\<rparr>)
   \<and> run_script fresh env_file no_picks =
       (\<lparr>cache = Some ([], \<lparr>columns = map normalize_column (columns sample_csv),
                             rows = rows sample_csv\<rparr>)\<rparr>,
        [], Some (render [scenario1] no_picks))
   \<and> run_script
       \<lparr>cache = Some ([], \<lparr>columns = map normalize_column (columns sample_csv),
                            rows = rows sample_csv\<rparr>)\<rparr>
       env_missing (no_picks\<lparr>picked_year := Some 2019\<rparr>) =
       (\<lparr>cache = Some ([], \<lparr>columns = map normalize_column (columns sample_csv),
                             rows = rows sample_csv\<rparr>)\<rparr>,
        [], Some (render [scenario1] (no_picks\<lparr>picked_year := Some 2019\<rparr>)))
   \<and> fst (script_body [[scenario1, sample2, sample3]] 0 no_picks) ! 0 =
       [scenario1, sample2, sample3]"
proof -
  let ?t = "\<lparr>columns = map normalize_column (columns sample_csv), rows = rows sample_csv\<rparr>"
  let ?s = "\<lparr>cache = Some ([], ?t)\<rparr>"
  have l: "cache fresh = None \<and> load_data env_file = ([], Inr ?t)"
    by (simp add: fresh_def load_data_def env_file_def)
  have c: "cache ?s = Some ([], ?t)" by simp
  note r = records_of_sample_csv
  note t = dataset_computed_once [of fresh env_file "[]" ?t "[env_missing, env_denied]",
      THEN conjunct1, rule_format, OF l]
  from t have m: "cached_load_data fresh env_file = (fresh\<lparr>cache := Some ([], ?t)\<rparr>, [], Inr ?t)"
    by (rule conjunct1)
  from t have "calls fresh [env_file, env_missing, env_denied] =
      replicate (Suc (length [env_missing, env_denied])) ([], Inr ?t)"
    by (rule conjunct2)
  also have "\<dots> = replicate 3 ([], Inr ?t)"
    by (simp add: numeral_3_eq_3)
  finally have 1: "calls fresh [env_file, env_missing, env_denied] = replicate 3 ([], Inr ?t)" .
  from m r have 2: "run_script fresh env_file no_picks = (?s, [], Some (render [scenario1] no_picks))"
    by (simp add: run_script_render fresh_def)
  from dataset_computed_once [where s = ?s and msgs = "[]" and df = ?t and e = env_missing
      and u = "no_picks\<lparr>picked_year := Some 2019\<rparr>"] c r
  have 3: "run_script ?s env_missing (no_picks\<lparr>picked_year := Some 2019\<rparr>) =
      (?s, [], Some (render [scenario1] (no_picks\<lparr>picked_year := Some 2019\<rparr>)))"
    by blast
  have "(0::nat) < length [[scenario1, sample2, sample3]]" by simp
  with dataset_computed_once [where a = 0 and h = "[[scenario1, sample2, sample3]]" and u = no_picks]
  have 4: "fst (script_body [[scenario1, sample2, sample3]] 0 no_picks) ! 0 =
      [[scenario1, sample2, sample3]] ! 0"
    by blast
  from 1 2 3 4 show ?thesis by simp
qed

end
